theory Spec2Isabelle
  imports Main
begin

section \<open>Python values, strings and dictionaries\<close>

text \<open>
  The quotation records handled by \<^verbatim>\<open>src/app/embedding_service.py\<close> are Python
  dictionaries \<^verbatim>\<open>Dict[str, Any]\<close>. The request model of \<^verbatim>\<open>src/main.py\<close>
  fills them with \<^verbatim>\<open>None\<close>, integers, floats and strings. A float is carried by the two
  things this code asks of it: its truth value (\<^verbatim>\<open>x != 0.0\<close>) and the text
  \<^verbatim>\<open>str(x)\<close>; no float arithmetic is performed anywhere in the service.
  Strings are byte lists: a character outside ASCII stands as its UTF-8 bytes, which
  concatenation (the only string operation used) respects.
\<close>

datatype pyfloat = Float (float_nonzero: bool) (float_repr: string)

datatype pyval =
    PyNone
  | PyInt int
  | PyFloat pyfloat
  | PyStr string

text \<open>An exception is its class name together with the text \<^verbatim>\<open>str(e)\<close>.\<close>

datatype pyexc = PyExc (exc_class: string) (exc_str: string)

type_synonym pydict = "string \<rightharpoonup> pyval"

text \<open>Sequencing of statements that may raise: the first exception ends the block.\<close>

definition exc_bind :: "'e + 'a \<Rightarrow> ('a \<Rightarrow> 'e + 'b) \<Rightarrow> 'e + 'b" where
  "exc_bind r f = (case r of Inl e \<Rightarrow> Inl e | Inr x \<Rightarrow> f x)"

text \<open>Python's \<^verbatim>\<open>bool(v)\<close>, as used by \<^verbatim>\<open>if quotation_item.get(key):\<close>.\<close>

fun truthy :: "pyval \<Rightarrow> bool" where
  "truthy PyNone = False"
| "truthy (PyInt i) = (i \<noteq> 0)"
| "truthy (PyFloat x) = float_nonzero x"
| "truthy (PyStr s) = (s \<noteq> [])"

definition digit_char :: "nat \<Rightarrow> char" where
  "digit_char d = ''0123456789'' ! d"

fun str_nat :: "nat \<Rightarrow> string" where
  "str_nat n = (if n < 10 then [digit_char n] else str_nat (n div 10) @ [digit_char (n mod 10)])"

definition str_int :: "int \<Rightarrow> string" where
  "str_int i = (if i < 0 then CHR ''-'' # str_nat (nat (- i)) else str_nat (nat i))"

text \<open>Python's \<^verbatim>\<open>str(v)\<close>, which is also what an f-string field \<^verbatim>\<open>{v}\<close> renders.\<close>

fun py_str :: "pyval \<Rightarrow> string" where
  "py_str PyNone = ''None''"
| "py_str (PyInt i) = str_int i"
| "py_str (PyFloat x) = float_repr x"
| "py_str (PyStr s) = s"

text \<open>
  \<^verbatim>\<open>d.get(k)\<close>, \<^verbatim>\<open>d.get(k, default)\<close> and \<^verbatim>\<open>d[k]\<close>, which raises KeyError. The text of
  \<^verbatim>\<open>KeyError(k)\<close> is the repr of the key: for the keys this code subscripts (plain
  words) the key in single quotes.
\<close>

definition dict_get :: "pydict \<Rightarrow> string \<Rightarrow> pyval" where
  "dict_get d k = (case d k of None \<Rightarrow> PyNone | Some v \<Rightarrow> v)"

definition dict_get_default :: "pydict \<Rightarrow> string \<Rightarrow> pyval \<Rightarrow> pyval" where
  "dict_get_default d k dflt = (case d k of None \<Rightarrow> dflt | Some v \<Rightarrow> v)"

definition dict_subscript :: "pydict \<Rightarrow> string \<Rightarrow> pyexc + pyval" where
  "dict_subscript d k =
     (case d k of
        None \<Rightarrow> Inl (PyExc ''KeyError'' ([CHR 0x27] @ k @ [CHR 0x27]))
      | Some v \<Rightarrow> Inr v)"

text \<open>\<^verbatim>\<open>sep.join(parts)\<close>.\<close>

fun str_join :: "string \<Rightarrow> string list \<Rightarrow> string" where
  "str_join sep [] = []"
| "str_join sep [x] = x"
| "str_join sep (x # y # ys) = x @ sep @ str_join sep (y # ys)"

section \<open>The document builder\<close>

text \<open>
  One statement of the shape
  \<^verbatim>\<open>if d.get(key): parts.append(f"<pre>{d[key]}<post>")\<close>,
  the only statement shape in \<^verbatim>\<open>create_document_text\<close> and in the body of the loop
  of \<^verbatim>\<open>generate_answer\<close>.
\<close>

definition append_if_set :: "pydict \<Rightarrow> string \<Rightarrow> string \<Rightarrow> string \<Rightarrow> string list \<Rightarrow> pyexc + string list" where
  "append_if_set d key pre post parts =
     (if truthy (dict_get d key)
      then exc_bind (dict_subscript d key) (\<lambda>v. Inr (parts @ [pre @ py_str v @ post]))
      else Inr parts)"

text \<open>\<^verbatim>\<open>QuotationEmbeddingService.create_document_text\<close> (embedding_service.py, lines 32-72).\<close>

definition create_document_text :: "pydict \<Rightarrow> pyexc + string" where
  "create_document_text quotation_item =
     exc_bind (append_if_set quotation_item ''customername'' ''Customer: '' [] []) (\<lambda>doc_parts.
     exc_bind (append_if_set quotation_item ''customeremail'' ''Email: '' [] doc_parts) (\<lambda>doc_parts.
     exc_bind (append_if_set quotation_item ''customerphone'' ''Phone: '' [] doc_parts) (\<lambda>doc_parts.
     exc_bind (append_if_set quotation_item ''quotationcode'' ''Quotation Code: '' [] doc_parts) (\<lambda>doc_parts.
     exc_bind (append_if_set quotation_item ''quptationstatus'' ''Status: '' [] doc_parts) (\<lambda>doc_parts.
     exc_bind (append_if_set quotation_item ''quotationtotalamount'' ''Total Amount: '' [] doc_parts) (\<lambda>doc_parts.
     exc_bind (append_if_set quotation_item ''itemname'' ''Item: '' [] doc_parts) (\<lambda>doc_parts.
     exc_bind (append_if_set quotation_item ''itembrand'' ''Brand: '' [] doc_parts) (\<lambda>doc_parts.
     exc_bind (append_if_set quotation_item ''itemspecifications'' ''Specifications: '' [] doc_parts) (\<lambda>doc_parts.
     exc_bind (append_if_set quotation_item ''itemquantity'' ''Quantity: '' [] doc_parts) (\<lambda>doc_parts.
     exc_bind (append_if_set quotation_item ''itemsellingprice'' ''Selling Price: '' [] doc_parts) (\<lambda>doc_parts.
     exc_bind (append_if_set quotation_item ''itemlistingprice'' ''Listing Price: '' [] doc_parts) (\<lambda>doc_parts.
     exc_bind (append_if_set quotation_item ''sellername'' ''Seller: '' [] doc_parts) (\<lambda>doc_parts.
     Inr (str_join '' | '' doc_parts))))))))))))))"

subsection \<open>The builder as the specification words it\<close>

text \<open>
  Section 4.1 of the specification: the included fields, each rendered as
  \<^verbatim>\<open><Label>: <value>\<close>, in a fixed field order, joined with \<^verbatim>\<open>" | "\<close>. A field
  is included when its value is present and not empty: a string must be non-empty, a
  number non-zero.
\<close>

definition spec_field_order :: "(string \<times> string) list" where
  "spec_field_order =
     [(''customername'', ''Customer''), (''customeremail'', ''Email''), (''customerphone'', ''Phone''),
      (''quotationcode'', ''Quotation Code''), (''quptationstatus'', ''Status''),
      (''quotationtotalamount'', ''Total Amount''),
      (''itemname'', ''Item''), (''itembrand'', ''Brand''), (''itemspecifications'', ''Specifications''),
      (''itemquantity'', ''Quantity''),
      (''itemsellingprice'', ''Selling Price''), (''itemlistingprice'', ''Listing Price''),
      (''sellername'', ''Seller'')]"

definition spec_included :: "pydict \<Rightarrow> string \<Rightarrow> bool" where
  "spec_included item key =
     (case item key of
        None \<Rightarrow> False
      | Some PyNone \<Rightarrow> False
      | Some (PyInt i) \<Rightarrow> i \<noteq> 0
      | Some (PyFloat x) \<Rightarrow> float_nonzero x
      | Some (PyStr s) \<Rightarrow> s \<noteq> [])"

definition spec_render_field :: "pydict \<Rightarrow> string \<times> string \<Rightarrow> string" where
  "spec_render_field item = (\<lambda>(key, label). label @ '': '' @ py_str (dict_get item key))"

definition spec_build_document :: "pydict \<Rightarrow> string" where
  "spec_build_document item =
     str_join '' | ''
       (map (spec_render_field item) (filter (\<lambda>(key, label). spec_included item key) spec_field_order))"

text \<open>The record of the specification's scenario.\<close>

definition scenario_record :: pydict where
  "scenario_record =
     [''id'' \<mapsto> PyInt 1, ''customername'' \<mapsto> PyStr ''Acme'',
      ''itemname'' \<mapsto> PyStr ''Bearing'', ''itemsellingprice'' \<mapsto> PyInt 500]"

section \<open>The embedding and index gateway\<close>

text \<open>
  The sentence-embedding model and the vector index are external libraries. They are
  parameters of the model: \<open>model_encode\<close> is \<^verbatim>\<open>self.model.encode(text).tolist()\<close>,
  \<open>collection_add\<close> is \<^verbatim>\<open>self.collection.add(embeddings, documents, metadatas, ids)\<close>
  acting on the state \<open>'c\<close> of the index, and \<open>collection_query\<close> is
  \<^verbatim>\<open>self.collection.query(query_embeddings, n_results)\<close>. Each of them may raise.
  \<open>'v\<close> is the type of embedding vectors and \<open>'d\<close> the type of distances.
  Calls of the logger are left out: they change neither a result nor an exception.
\<close>

record 'd chroma_result =
  res_documents :: "string list list option"
  res_metadatas :: "pydict list list option"
  res_distances :: "'d list list option"

record ('v, 'd, 'c) service =
  model_encode :: "string \<Rightarrow> pyexc + 'v"
  collection_add :: "'v list \<Rightarrow> string list \<Rightarrow> pydict list \<Rightarrow> string list \<Rightarrow> 'c \<Rightarrow> pyexc + 'c"
  collection_query :: "'v list \<Rightarrow> int \<Rightarrow> 'c \<Rightarrow> pyexc + 'd chroma_result"

text \<open>
  \<^verbatim>\<open>try: body  except Exception as e: logger.error(...); raise\<close>: the exception
  caught is raised again as it is.
\<close>

definition try_reraise :: "pyexc + 'a \<Rightarrow> pyexc + 'a" where
  "try_reraise body = (case body of Inl e \<Rightarrow> Inl e | Inr x \<Rightarrow> Inr x)"

text \<open>
  The identifier expression
  \<^verbatim>\<open>str(item.get('id', item.get('quotationcode', fallback)))\<close> of lines 93 and 117.
\<close>

definition item_identifier :: "pydict \<Rightarrow> string \<Rightarrow> string" where
  "item_identifier item fallback =
     py_str (dict_get_default item ''id'' (dict_get_default item ''quotationcode'' (PyStr fallback)))"

text \<open>\<^verbatim>\<open>add_quotation_item\<close> (lines 74-98).\<close>

definition add_quotation_item :: "('v, 'd, 'c) service \<Rightarrow> pydict \<Rightarrow> 'c \<Rightarrow> pyexc + 'c" where
  "add_quotation_item self quotation_item coll =
     try_reraise
       (exc_bind (create_document_text quotation_item) (\<lambda>doc_text.
        exc_bind (model_encode self doc_text) (\<lambda>embedding.
        collection_add self [embedding] [doc_text] [quotation_item]
          [item_identifier quotation_item ''unknown''] coll)))"

text \<open>
  \<^verbatim>\<open>bulk_add_quotation_items\<close> (lines 100-125): the loop over the batch, with the four
  lists it appends to, then one call of the index.
\<close>

fun bulk_collect ::
  "('v, 'd, 'c) service \<Rightarrow> pydict list \<Rightarrow> string list \<times> 'v list \<times> pydict list \<times> string list
     \<Rightarrow> pyexc + (string list \<times> 'v list \<times> pydict list \<times> string list)" where
  "bulk_collect self [] acc = Inr acc"
| "bulk_collect self (item # rest) (documents, embeddings, metadatas, ids) =
     exc_bind (create_document_text item) (\<lambda>doc_text.
     exc_bind (model_encode self doc_text) (\<lambda>embedding.
     bulk_collect self rest
       (documents @ [doc_text], embeddings @ [embedding], metadatas @ [item],
        ids @ [item_identifier item (''item_'' @ str_nat (length ids))])))"

definition bulk_add_quotation_items :: "('v, 'd, 'c) service \<Rightarrow> pydict list \<Rightarrow> 'c \<Rightarrow> pyexc + 'c" where
  "bulk_add_quotation_items self quotation_items coll =
     exc_bind (bulk_collect self quotation_items ([], [], [], []))
       (\<lambda>(documents, embeddings, metadatas, ids).
          collection_add self embeddings documents metadatas ids coll)"

text \<open>
  \<^verbatim>\<open>query\<close> (lines 127-157). \<^verbatim>\<open>results[key][0] if results[key] else []\<close>: the value is
  \<^verbatim>\<open>None\<close> or a list of lists, and an empty list is false.
\<close>

record 'd query_results =
  q_question :: string
  q_documents :: "string list"
  q_metadatas :: "pydict list"
  q_distances :: "'d list"
  q_count :: nat

definition first_or_empty :: "'a list list option \<Rightarrow> 'a list" where
  "first_or_empty r = (case r of None \<Rightarrow> [] | Some [] \<Rightarrow> [] | Some (x # xs) \<Rightarrow> x)"

definition query :: "('v, 'd, 'c) service \<Rightarrow> string \<Rightarrow> int \<Rightarrow> 'c \<Rightarrow> pyexc + 'd query_results" where
  "query self question n_results coll =
     try_reraise
       (exc_bind (model_encode self question) (\<lambda>query_embedding.
        exc_bind (collection_query self [query_embedding] n_results coll) (\<lambda>results.
        Inr \<lparr>q_question = question,
             q_documents = first_or_empty (res_documents results),
             q_metadatas = first_or_empty (res_metadatas results),
             q_distances = first_or_empty (res_distances results),
             q_count = length (first_or_empty (res_documents results))\<rparr>)))"

section \<open>The answer synthesizer\<close>

definition no_answer :: string where
  "no_answer = ''I couldn'' @ [CHR 0x27] @ ''t find any relevant information for your question.''"

definition answer_header :: string where
  "answer_header =
     ''Based on the quotation data, here'' @ [CHR 0x27] @ ''s what I found:'' @ [CHR 0x0A]"

text \<open>The rupee sign U+20B9, as its UTF-8 bytes.\<close>

definition rupee :: string where
  "rupee = [CHR 0xE2, CHR 0x82, CHR 0xB9]"

text \<open>The body of the loop of \<^verbatim>\<open>generate_answer\<close> (lines 183-194) for one result.\<close>

definition answer_body :: "nat \<Rightarrow> pydict \<Rightarrow> string list \<Rightarrow> pyexc + string list" where
  "answer_body idx metadata answer_parts =
     exc_bind (Inr (answer_parts @ [[CHR 0x0A] @ str_nat idx @ ''. ''])) (\<lambda>answer_parts.
     exc_bind (append_if_set metadata ''quotationcode'' ''Quotation '' '': '' answer_parts) (\<lambda>answer_parts.
     exc_bind (append_if_set metadata ''itemname'' [] '' '' answer_parts) (\<lambda>answer_parts.
     exc_bind (append_if_set metadata ''customername'' ''for '' '' '' answer_parts) (\<lambda>answer_parts.
     exc_bind (append_if_set metadata ''itemsellingprice'' (''at '' @ rupee) '' '' answer_parts) (\<lambda>answer_parts.
     append_if_set metadata ''quptationstatus'' ''(Status: '' '')'' answer_parts)))))"

text \<open>
  The loop \<^verbatim>\<open>for idx, (doc, metadata, distance) in enumerate(zip(...), 1)\<close>: \<open>zip\<close>
  stops at the shortest of the three lists.
\<close>

fun answer_loop :: "nat \<Rightarrow> (string \<times> pydict \<times> 'd) list \<Rightarrow> string list \<Rightarrow> pyexc + string list" where
  "answer_loop idx [] answer_parts = Inr answer_parts"
| "answer_loop idx ((doc, metadata, distance) # rest) answer_parts =
     exc_bind (answer_body idx metadata answer_parts) (answer_loop (Suc idx) rest)"

text \<open>\<^verbatim>\<open>generate_answer\<close> (lines 159-196).\<close>

definition generate_answer :: "('v, 'd, 'c) service \<Rightarrow> string \<Rightarrow> int \<Rightarrow> 'c \<Rightarrow> pyexc + string" where
  "generate_answer self question n_results coll =
     exc_bind (query self question n_results coll) (\<lambda>results.
       if q_count results = 0 then Inr no_answer
       else exc_bind
         (answer_loop 1
            (zip (q_documents results) (zip (q_metadatas results) (q_distances results)))
            [answer_header])
         (\<lambda>answer_parts. Inr (concat answer_parts)))"

subsection \<open>The line of one result\<close>

text \<open>
  The line of result \<open>n\<close> built from the fields that are included in the sense of
  section 4.1 (present and not empty: not None, a non-empty string, a non-zero number):
  the number, then the phrases for quotation code, item name, customer name, selling
  price and status, in this order.
\<close>

definition included_phrase :: "pydict \<Rightarrow> string \<Rightarrow> string \<Rightarrow> string \<Rightarrow> string" where
  "included_phrase metadata key pre post =
     (if spec_included metadata key then pre @ py_str (dict_get metadata key) @ post else [])"

definition included_result_line :: "nat \<Rightarrow> pydict \<Rightarrow> string" where
  "included_result_line n metadata =
     str_nat n @ ''. ''
     @ included_phrase metadata ''quotationcode'' ''Quotation '' '': ''
     @ included_phrase metadata ''itemname'' [] '' ''
     @ included_phrase metadata ''customername'' ''for '' '' ''
     @ included_phrase metadata ''itemsellingprice'' (''at '' @ [CHR 0xE2, CHR 0x82, CHR 0xB9]) '' ''
     @ included_phrase metadata ''quptationstatus'' ''(Status: '' '')''"

subsection \<open>The synthesizer as the specification words it\<close>

text \<open>
  Section 4.3 of the specification: the line is built from whichever of the five
  metadata fields are present; a field contributes nothing if absent. By section 3 a
  field is present when the record has a value for it: an empty string and a zero are
  values, distinct from absence.
\<close>

definition spec_present :: "pydict \<Rightarrow> string \<Rightarrow> bool" where
  "spec_present metadata key =
     (case metadata key of None \<Rightarrow> False | Some PyNone \<Rightarrow> False | Some v \<Rightarrow> True)"

definition spec_phrase :: "pydict \<Rightarrow> string \<Rightarrow> string \<Rightarrow> string \<Rightarrow> string" where
  "spec_phrase metadata key pre post =
     (if spec_present metadata key then pre @ py_str (dict_get metadata key) @ post else [])"

definition spec_result_line :: "nat \<Rightarrow> pydict \<Rightarrow> string" where
  "spec_result_line n metadata =
     str_nat n @ ''. ''
     @ spec_phrase metadata ''quotationcode'' ''Quotation '' '': ''
     @ spec_phrase metadata ''itemname'' [] '' ''
     @ spec_phrase metadata ''customername'' ''for '' '' ''
     @ spec_phrase metadata ''itemsellingprice'' (''at '' @ [CHR 0xE2, CHR 0x82, CHR 0xB9]) '' ''
     @ spec_phrase metadata ''quptationstatus'' ''(Status: '' '')''"

text \<open>The numbered entries of a ranked sequence: entry \<open>i + 1\<close> is result \<open>i\<close>, each on a new line.\<close>

definition spec_numbered_entries :: "pydict list \<Rightarrow> string" where
  "spec_numbered_entries ranked =
     concat (map (\<lambda>i. CHR 0x0A # included_result_line (Suc i) (ranked ! i)) [0..<length ranked])"

section \<open>The HTTP facade\<close>

text \<open>
  The request model \<^verbatim>\<open>QuotationItemCreate\<close> of \<^verbatim>\<open>src/main.py\<close> (lines 32-64); the
  field \<^verbatim>\<open>id\<close> is named \<open>id_field\<close> here. Every field is optional.
\<close>

record QuotationItemCreate =
  id_field :: "int option"
  customername :: "string option"
  customerphone :: "string option"
  customeremail :: "string option"
  customerid :: "int option"
  customercode :: "string option"
  quotationid :: "int option"
  quotationcode :: "string option"
  quptationstatus :: "string option"
  quotationtotalamount :: "pyfloat option"
  quotationtermsconditions :: "string option"
  quotationsellerremarks :: "string option"
  quotationissuedby :: "string option"
  quotationcreatedat :: "string option"
  itemname :: "string option"
  itemspecifications :: "string option"
  itembrand :: "string option"
  itemquantity :: "pyfloat option"
  itemdeliverydate :: "string option"
  itempricedemanded :: "string option"
  itempricevalidtill :: "string option"
  itemlistingprice :: "pyfloat option"
  itemsellerdiscount :: "pyfloat option"
  itemcustomerdiscount :: "pyfloat option"
  itempurchaseprice :: "pyfloat option"
  itemsellingprice :: "pyfloat option"
  itemproductid :: "int option"
  itemhsncode :: "string option"
  itemuom :: "string option"
  itemtaxpercent :: "string option"
  sellername :: "string option"
  sellerphone :: "string option"

definition opt_int :: "int option \<Rightarrow> pyval" where
  "opt_int x = (case x of None \<Rightarrow> PyNone | Some i \<Rightarrow> PyInt i)"

definition opt_str :: "string option \<Rightarrow> pyval" where
  "opt_str x = (case x of None \<Rightarrow> PyNone | Some s \<Rightarrow> PyStr s)"

definition opt_float :: "pyfloat option \<Rightarrow> pyval" where
  "opt_float x = (case x of None \<Rightarrow> PyNone | Some f \<Rightarrow> PyFloat f)"

text \<open>\<^verbatim>\<open>item.dict()\<close>: every field of the model is a key, an unset one mapped to \<^verbatim>\<open>None\<close>.\<close>

definition model_dict :: "QuotationItemCreate \<Rightarrow> pydict" where
  "model_dict item = map_of
     [(''id'', opt_int (id_field item)),
      (''customername'', opt_str (customername item)),
      (''customerphone'', opt_str (customerphone item)),
      (''customeremail'', opt_str (customeremail item)),
      (''customerid'', opt_int (customerid item)),
      (''customercode'', opt_str (customercode item)),
      (''quotationid'', opt_int (quotationid item)),
      (''quotationcode'', opt_str (quotationcode item)),
      (''quptationstatus'', opt_str (quptationstatus item)),
      (''quotationtotalamount'', opt_float (quotationtotalamount item)),
      (''quotationtermsconditions'', opt_str (quotationtermsconditions item)),
      (''quotationsellerremarks'', opt_str (quotationsellerremarks item)),
      (''quotationissuedby'', opt_str (quotationissuedby item)),
      (''quotationcreatedat'', opt_str (quotationcreatedat item)),
      (''itemname'', opt_str (itemname item)),
      (''itemspecifications'', opt_str (itemspecifications item)),
      (''itembrand'', opt_str (itembrand item)),
      (''itemquantity'', opt_float (itemquantity item)),
      (''itemdeliverydate'', opt_str (itemdeliverydate item)),
      (''itempricedemanded'', opt_str (itempricedemanded item)),
      (''itempricevalidtill'', opt_str (itempricevalidtill item)),
      (''itemlistingprice'', opt_float (itemlistingprice item)),
      (''itemsellerdiscount'', opt_float (itemsellerdiscount item)),
      (''itemcustomerdiscount'', opt_float (itemcustomerdiscount item)),
      (''itempurchaseprice'', opt_float (itempurchaseprice item)),
      (''itemsellingprice'', opt_float (itemsellingprice item)),
      (''itemproductid'', opt_int (itemproductid item)),
      (''itemhsncode'', opt_str (itemhsncode item)),
      (''itemuom'', opt_str (itemuom item)),
      (''itemtaxpercent'', opt_str (itemtaxpercent item)),
      (''sellername'', opt_str (sellername item)),
      (''sellerphone'', opt_str (sellerphone item))]"

datatype http_error = HTTPException (status_code: int) (detail: string)

record add_response =
  resp_status :: string
  resp_message :: string
  resp_item_id :: pyval

text \<open>Python's \<^verbatim>\<open>a or b\<close>.\<close>

definition py_or :: "pyval \<Rightarrow> pyval \<Rightarrow> pyval" where
  "py_or a b = (if truthy a then a else b)"

text \<open>The handler of \<^verbatim>\<open>POST /quotations/add\<close> (main.py, lines 91-106).\<close>

definition add_quotation ::
  "('v, 'd, 'c) service \<Rightarrow> QuotationItemCreate \<Rightarrow> 'c \<Rightarrow> http_error + (add_response \<times> 'c)" where
  "add_quotation embedding_service item coll =
     (let item_dict = model_dict item in
      case add_quotation_item embedding_service item_dict coll of
        Inl e \<Rightarrow> Inl (HTTPException 500 (exc_str e))
      | Inr coll' \<Rightarrow>
          Inr (\<lparr>resp_status = ''success'',
                resp_message = ''Quotation item added successfully'',
                resp_item_id = py_or (dict_get item_dict ''id'') (dict_get item_dict ''quotationcode'')\<rparr>,
               coll'))"

section \<open>Predicates of the claims and concrete inputs\<close>

text \<open>A numeric value that is exactly zero: the integer 0 or a float equal to 0.0.\<close>

definition is_zero :: "pyval \<Rightarrow> bool" where
  "is_zero v = (case v of PyInt i \<Rightarrow> i = 0 | PyFloat f \<Rightarrow> \<not> float_nonzero f | _ \<Rightarrow> False)"

text \<open>A field that is absent (no key, or \<^verbatim>\<open>None\<close>), empty, or zero.\<close>

definition absent_empty_or_zero :: "pydict \<Rightarrow> string \<Rightarrow> bool" where
  "absent_empty_or_zero item key =
     (case item key of
        None \<Rightarrow> True
      | Some PyNone \<Rightarrow> True
      | Some (PyStr s) \<Rightarrow> s = []
      | Some v \<Rightarrow> is_zero v)"

text \<open>
  Section 4.2 of the specification words a failed add as an \<^verbatim>\<open>IndexWriteError\<close> with the
  identifier attached.
\<close>

definition spec_index_write_error :: "string \<Rightarrow> pyexc" where
  "spec_index_write_error identifier = PyExc ''IndexWriteError'' identifier"

definition zero_amount_record :: pydict where
  "zero_amount_record = [''quotationtotalamount'' \<mapsto> PyInt 0]"

definition zero_price_record :: pydict where
  "zero_price_record = [''itemsellingprice'' \<mapsto> PyFloat (Float False ''0.0'')]"

definition blank_record :: pydict where
  "blank_record =
     [''id'' \<mapsto> PyInt 5, ''customername'' \<mapsto> PyStr [], ''itemsellingprice'' \<mapsto> PyInt 0,
      ''quotationtotalamount'' \<mapsto> PyFloat (Float False ''0.0''), ''sellername'' \<mapsto> PyNone]"

definition full_metadata :: pydict where
  "full_metadata =
     [''quotationcode'' \<mapsto> PyStr ''Q1'', ''itemname'' \<mapsto> PyStr ''Bearing'',
      ''customername'' \<mapsto> PyStr ''Acme'', ''itemsellingprice'' \<mapsto> PyInt 500,
      ''quptationstatus'' \<mapsto> PyStr ''open'']"

text \<open>
  The metadata of a record sent without a price and with an empty status: the request
  model stores the price as 0.0.
\<close>

definition zero_price_metadata :: pydict where
  "zero_price_metadata =
     [''itemname'' \<mapsto> PyStr ''Bearing'', ''itemsellingprice'' \<mapsto> PyFloat (Float False ''0.0''),
      ''quptationstatus'' \<mapsto> PyStr []]"

text \<open>
  A stand-in for the two libraries: the embedding of a text is the text, the index is the
  list of the (identifier, document) pairs added so far, and a search finds nothing.
\<close>

definition recording_service :: "(string, nat, (string \<times> string) list) service" where
  "recording_service =
     \<lparr>model_encode = (\<lambda>text. Inr text),
      collection_add = (\<lambda>embeddings documents metadatas ids coll. Inr (coll @ zip ids documents)),
      collection_query = (\<lambda>query_embeddings n_results coll.
         Inr \<lparr>res_documents = None, res_metadatas = None, res_distances = None\<rparr>)\<rparr>"

definition failing_model_service :: "(string, nat, (string \<times> string) list) service" where
  "failing_model_service =
     recording_service\<lparr>model_encode := (\<lambda>text. Inl (PyExc ''RuntimeError'' ''model unavailable''))\<rparr>"

definition failing_index_service :: "(string, nat, (string \<times> string) list) service" where
  "failing_index_service =
     recording_service\<lparr>collection_add :=
        (\<lambda>embeddings documents metadatas ids coll. Inl (PyExc ''ValueError'' ''index unavailable''))\<rparr>"

definition empty_index_service :: "(string, nat, (string \<times> string) list) service" where
  "empty_index_service =
     recording_service\<lparr>collection_query := (\<lambda>query_embeddings n_results coll.
         Inr \<lparr>res_documents = Some [[]], res_metadatas = Some [[]], res_distances = Some [[]]\<rparr>)\<rparr>"

definition three_result_service :: "(string, nat, (string \<times> string) list) service" where
  "three_result_service =
     recording_service\<lparr>collection_query := (\<lambda>query_embeddings n_results coll.
         Inr \<lparr>res_documents = Some [[''Item: A'', ''Item: B'', ''Item: C'']],
              res_metadatas = Some [[[''itemname'' \<mapsto> PyStr ''A''], [''itemname'' \<mapsto> PyStr ''B''],
                                     [''itemname'' \<mapsto> PyStr ''C'']]],
              res_distances = Some [[1, 2, 3]]\<rparr>)\<rparr>"

text \<open>The same index answering with distances of another type and other values.\<close>

definition other_distances_service :: "(string, bool, (string \<times> string) list) service" where
  "other_distances_service =
     \<lparr>model_encode = (\<lambda>text. Inr text),
      collection_add = (\<lambda>embeddings documents metadatas ids coll. Inr (coll @ zip ids documents)),
      collection_query = (\<lambda>query_embeddings n_results coll.
         Inr \<lparr>res_documents = Some [[''Item: A'', ''Item: B'', ''Item: C'']],
              res_metadatas = Some [[[''itemname'' \<mapsto> PyStr ''A''], [''itemname'' \<mapsto> PyStr ''B''],
                                     [''itemname'' \<mapsto> PyStr ''C'']]],
              res_distances = Some [[True, False, True]]\<rparr>)\<rparr>"

definition three_results :: "nat query_results" where
  "three_results =
     \<lparr>q_question = ''What did we quote?'',
      q_documents = [''Item: A'', ''Item: B'', ''Item: C''],
      q_metadatas = [[''itemname'' \<mapsto> PyStr ''A''], [''itemname'' \<mapsto> PyStr ''B''],
                     [''itemname'' \<mapsto> PyStr ''C'']],
      q_distances = [1, 2, 3],
      q_count = 3\<rparr>"

text \<open>
  The request body \<^verbatim>\<open>{"quotationcode": "Q1"}\<close> after validation: the fields not sent take
  the defaults of the request model. \<open>request_blank\<close> is the body \<^verbatim>\<open>{}\<close>.
\<close>

definition request_only_code :: QuotationItemCreate where
  "request_only_code =
     \<lparr>id_field = None, customername = None, customerphone = None, customeremail = None,
      customerid = Some 0, customercode = None, quotationid = Some 0, quotationcode = Some ''Q1'',
      quptationstatus = None, quotationtotalamount = Some (Float False ''0.0''),
      quotationtermsconditions = None, quotationsellerremarks = None,
      quotationissuedby = Some ''indispare'', quotationcreatedat = None, itemname = None,
      itemspecifications = None, itembrand = None, itemquantity = None, itemdeliverydate = None,
      itempricedemanded = None, itempricevalidtill = None,
      itemlistingprice = Some (Float False ''0.0''), itemsellerdiscount = Some (Float False ''0.0''),
      itemcustomerdiscount = Some (Float False ''0.0''), itempurchaseprice = Some (Float False ''0.0''),
      itemsellingprice = Some (Float False ''0.0''), itemproductid = None, itemhsncode = None,
      itemuom = None, itemtaxpercent = Some ''18'', sellername = None, sellerphone = None\<rparr>"

definition request_blank :: QuotationItemCreate where
  "request_blank = request_only_code\<lparr>quotationcode := None\<rparr>"

section \<open>Exceptions and the statement shape shared by both formatters\<close>

lemma exc_bind_Inr: "exc_bind (Inr x) f = f x"
  by (simp add: exc_bind_def)

lemma exc_bind_Inl: "exc_bind (Inl e) f = Inl e"
  by (simp add: exc_bind_def)

lemma try_reraise_id: "try_reraise r = r"
  by (cases r) (simp_all add: try_reraise_def)

text \<open>
  The subscript \<^verbatim>\<open>d[key]\<close> is only evaluated after \<^verbatim>\<open>d.get(key)\<close> was found true, so
  the key is there and no KeyError is raised.
\<close>

lemma append_if_set_eq:
  "append_if_set d key pre post parts =
     Inr (parts @ (if truthy (dict_get d key) then [pre @ py_str (dict_get d key) @ post] else []))"
  by (cases "d key") (simp_all add: append_if_set_def dict_get_def dict_subscript_def exc_bind_def)

section \<open>Properties of the document builder\<close>

lemma spec_included_truthy: "spec_included item key = truthy (dict_get item key)"
  by (simp add: spec_included_def dict_get_def split: option.splits pyval.splits)

lemma create_document_text_parts:
  "create_document_text item =
     Inr (str_join '' | ''
       (concat (map (\<lambda>(key, label).
          if truthy (dict_get item key) then [label @ '': '' @ py_str (dict_get item key)] else [])
        spec_field_order)))"
  by (simp add: create_document_text_def append_if_set_eq exc_bind_Inr spec_field_order_def)

lemma create_document_text_total: "\<exists>doc_text. create_document_text item = Inr doc_text"
  by (simp add: create_document_text_parts)

lemma concat_map_filter:
  "concat (map (\<lambda>x. if P x then [f x] else []) xs) = map f (filter P xs)"
  by (induction xs) simp_all

lemma scenario_document:
  "create_document_text scenario_record = Inr ''Customer: Acme | Item: Bearing | Selling Price: 500''"
  by (simp add: create_document_text_parts spec_field_order_def scenario_record_def dict_get_def
      str_int_def digit_char_def)

text \<open>
  C1: for every record, create_document_text returns (without raising) the string made
  of the included fields, each rendered as "<Label>: <value>", joined with " | ", in the
  order customer name, email, phone; quotation code, status, total amount; item name,
  brand, specifications, quantity; selling price, listing price; seller name. For
  {id:1, customername:"Acme", itemname:"Bearing", itemsellingprice:500} the document is
  "Customer: Acme | Item: Bearing | Selling Price: 500".
\<close>

theorem create_document_text_spec:
  "create_document_text item = Inr (spec_build_document item)
   \<and> create_document_text scenario_record = Inr ''Customer: Acme | Item: Bearing | Selling Price: 500''"
proof
  have "(\<lambda>(key, label). if truthy (dict_get item key)
            then [label @ '': '' @ py_str (dict_get item key)] else [])
        = (\<lambda>x. if (\<lambda>(key, label). spec_included item key) x then [spec_render_field item x] else [])"
    by (auto simp: fun_eq_iff spec_included_truthy spec_render_field_def)
  then show "create_document_text item = Inr (spec_build_document item)"
    by (simp only: create_document_text_parts spec_build_document_def concat_map_filter)
next
  show "create_document_text scenario_record = Inr ''Customer: Acme | Item: Bearing | Selling Price: 500''"
    by (rule scenario_document)
qed

subsection \<open>Zero-valued fields\<close>

lemma dict_get_upd_falsy:
  "\<not> truthy v \<Longrightarrow> truthy (dict_get (item(key \<mapsto> v)) k) = truthy (dict_get (item(key := None)) k)"
  by (simp add: dict_get_def)

lemma dict_get_upd_other:
  "truthy (dict_get (item(key := None)) k) \<Longrightarrow>
   dict_get (item(key \<mapsto> v)) k = dict_get (item(key := None)) k"
  by (auto simp add: dict_get_def split: if_splits)

lemma is_zero_falsy: "is_zero v \<Longrightarrow> \<not> truthy v"
  by (cases v) (simp_all add: is_zero_def)

text \<open>
  C2, as the code has it: a field whose value is exactly zero (the integer 0 or the
  float 0.0) is treated as absent. The document of a record holding such a field is the
  document of the record without the field, so amount=0 yields no "Total Amount" part.
\<close>

theorem zero_field_omitted:
  "is_zero v \<Longrightarrow> create_document_text (item(key \<mapsto> v)) = create_document_text (item(key := None))"
proof -
  assume "is_zero v"
  then have f: "\<not> truthy v" by (rule is_zero_falsy)
  have "\<And>k label.
      (if truthy (dict_get (item(key \<mapsto> v)) k)
       then [label @ '': '' @ py_str (dict_get (item(key \<mapsto> v)) k)] else [])
    = (if truthy (dict_get (item(key := None)) k)
       then [label @ '': '' @ py_str (dict_get (item(key := None)) k)] else [])"
    using dict_get_upd_falsy [OF f] dict_get_upd_other by metis
  then show ?thesis
    by (simp only: create_document_text_parts)
qed

text \<open>
  C2 at the scenario record with quotationtotalamount = 0 added: the document is the
  one of the scenario record, with no part for the amount.
\<close>

theorem zero_field_omitted_witness:
  "is_zero (PyInt 0)
   \<and> create_document_text (scenario_record(''quotationtotalamount'' \<mapsto> PyInt 0))
       = Inr ''Customer: Acme | Item: Bearing | Selling Price: 500''"
proof -
  have z: "is_zero (PyInt 0)" by (simp add: is_zero_def)
  have "create_document_text (scenario_record(''quotationtotalamount'' := None))
       = Inr ''Customer: Acme | Item: Bearing | Selling Price: 500''"
    by (simp add: create_document_text_parts spec_field_order_def scenario_record_def dict_get_def
        str_int_def digit_char_def)
  with z zero_field_omitted [OF z, of scenario_record "''quotationtotalamount''"] show ?thesis by simp
qed

text \<open>
  C2 as stated fails: for the record {quotationtotalamount: 0} the document is empty,
  not "Total Amount: 0"; likewise for {itemsellingprice: 0.0}.
\<close>

theorem zero_amount_not_rendered:
  "create_document_text zero_amount_record = Inr []
   \<and> create_document_text zero_amount_record \<noteq> Inr ''Total Amount: 0''
   \<and> create_document_text zero_price_record = Inr []"
  by (simp add: create_document_text_parts spec_field_order_def zero_amount_record_def
      zero_price_record_def dict_get_def)

section \<open>Properties of the gateway\<close>

lemma add_quotation_item_unfold:
  "create_document_text item = Inr doc_text \<Longrightarrow>
   add_quotation_item self item coll =
     exc_bind (model_encode self doc_text) (\<lambda>embedding.
       collection_add self [embedding] [doc_text] [item] [item_identifier item ''unknown''] coll)"
  by (simp add: add_quotation_item_def try_reraise_id exc_bind_Inr)

lemma absent_empty_or_zero_falsy:
  "absent_empty_or_zero item key \<longleftrightarrow> \<not> truthy (dict_get item key)"
  by (auto simp: absent_empty_or_zero_def dict_get_def is_zero_def split: option.splits pyval.splits)

text \<open>
  C9: when all thirteen document fields of a record are absent, empty or zero,
  create_document_text returns the empty string, and add_quotation_item does not reject
  the record: it embeds the empty document and passes it to the index under the
  record's identifier.
\<close>

theorem blank_record_empty_document:
  assumes "\<forall>key \<in> set (map fst spec_field_order). absent_empty_or_zero item key"
  shows "create_document_text item = Inr []
         \<and> add_quotation_item self item coll =
             exc_bind (model_encode self []) (\<lambda>embedding.
               collection_add self [embedding] [[]] [item] [item_identifier item ''unknown''] coll)"
proof -
  from assms have "\<forall>key \<in> set (map fst spec_field_order). \<not> truthy (dict_get item key)"
    by (simp only: absent_empty_or_zero_falsy)
  then have doc: "create_document_text item = Inr []"
    by (simp add: create_document_text_parts spec_field_order_def)
  then show ?thesis
    by (simp add: add_quotation_item_unfold)
qed

text \<open>
  C9 at the record {id: 5, customername: "", itemsellingprice: 0,
  quotationtotalamount: 0.0, sellername: None}: the index receives the empty document
  under the identifier "5".
\<close>

theorem blank_record_empty_document_witness:
  "list_all (absent_empty_or_zero blank_record) (map fst spec_field_order)
   \<and> create_document_text blank_record = Inr []
   \<and> add_quotation_item recording_service blank_record [] = Inr [(''5'', [])]"
proof -
  have h: "\<forall>key \<in> set (map fst spec_field_order). absent_empty_or_zero blank_record key"
    by (simp add: spec_field_order_def absent_empty_or_zero_def blank_record_def is_zero_def)
  have i: "item_identifier blank_record ''unknown'' = ''5''"
    by (simp add: item_identifier_def dict_get_default_def blank_record_def str_int_def digit_char_def)
  from blank_record_empty_document [OF h, of recording_service "[]"] h i show ?thesis
    by (simp add: recording_service_def exc_bind_Inr list_all_iff)
qed

text \<open>
  C7, as the code has it: when the embedding call or the call of the index inside
  add_quotation_item raises, add_quotation_item raises that very exception, unchanged:
  it is neither swallowed nor replaced by another one (no IndexWriteError, no
  identifier attached).
\<close>

theorem add_quotation_item_reraises:
  assumes "create_document_text item = Inr doc_text"
    and "model_encode self doc_text = Inl e
         \<or> (\<exists>embedding. model_encode self doc_text = Inr embedding
              \<and> collection_add self [embedding] [doc_text] [item] [item_identifier item ''unknown''] coll
                  = Inl e)"
  shows "add_quotation_item self item coll = Inl e"
  using assms(2) by (auto simp: add_quotation_item_unfold [OF assms(1)] exc_bind_Inl exc_bind_Inr)

text \<open>C7 at the scenario record, with an embedding model that raises RuntimeError.\<close>

theorem add_quotation_item_reraises_witness:
  "create_document_text scenario_record = Inr ''Customer: Acme | Item: Bearing | Selling Price: 500''
   \<and> model_encode failing_model_service ''Customer: Acme | Item: Bearing | Selling Price: 500''
       = Inl (PyExc ''RuntimeError'' ''model unavailable'')
   \<and> add_quotation_item failing_model_service scenario_record []
       = Inl (PyExc ''RuntimeError'' ''model unavailable'')"
proof -
  note d = scenario_document
  have m: "model_encode failing_model_service ''Customer: Acme | Item: Bearing | Selling Price: 500''
       = Inl (PyExc ''RuntimeError'' ''model unavailable'')"
    by (simp add: failing_model_service_def)
  from add_quotation_item_reraises [OF d disjI1, OF m, of "[]"] d m show ?thesis by simp
qed

text \<open>
  C7 as stated fails: the RuntimeError of the model and the ValueError of the index
  reach the caller as they are, not as an IndexWriteError carrying the identifier.
\<close>

theorem add_quotation_item_not_wrapped:
  "add_quotation_item failing_model_service scenario_record []
     = Inl (PyExc ''RuntimeError'' ''model unavailable'')
   \<and> add_quotation_item failing_model_service scenario_record []
       \<noteq> Inl (spec_index_write_error (item_identifier scenario_record ''unknown''))
   \<and> add_quotation_item failing_index_service scenario_record []
       = Inl (PyExc ''ValueError'' ''index unavailable'')
   \<and> add_quotation_item failing_index_service scenario_record []
       \<noteq> Inl (spec_index_write_error (item_identifier scenario_record ''unknown''))"
  by (simp add: add_quotation_item_unfold [OF scenario_document] exc_bind_Inr exc_bind_Inl
      failing_model_service_def failing_index_service_def recording_service_def
      spec_index_write_error_def)

subsection \<open>Identifiers\<close>

lemma request_only_code_document:
  "create_document_text (model_dict request_only_code) = Inr ''Quotation Code: Q1''"
  by (simp add: create_document_text_parts spec_field_order_def model_dict_def request_only_code_def
      dict_get_def opt_int_def opt_str_def opt_float_def)

text \<open>
  C10: identifier selection is by key, not by value. For every record whose key 'id' is
  mapped to None, add_quotation_item passes the identifier "None" to the index,
  whatever the quotationcode; and the dictionary of every request that omits id maps
  'id' to None.
\<close>

theorem id_none_identifier:
  "(item ''id'' = Some PyNone \<longrightarrow> create_document_text item = Inr doc_text \<longrightarrow>
      item_identifier item fallback = ''None''
      \<and> add_quotation_item self item coll =
          exc_bind (model_encode self doc_text) (\<lambda>embedding.
            collection_add self [embedding] [doc_text] [item] [''None''] coll))
   \<and> (id_field request = None \<longrightarrow> model_dict request ''id'' = Some PyNone)"
  by (simp add: add_quotation_item_unfold item_identifier_def dict_get_default_def model_dict_def
      opt_int_def)

text \<open>
  C10 at the request {"quotationcode": "Q1"}: its document is stored under "None".
\<close>

theorem id_none_identifier_witness:
  "model_dict request_only_code ''id'' = Some PyNone
   \<and> id_field request_only_code = None
   \<and> create_document_text (model_dict request_only_code) = Inr ''Quotation Code: Q1''
   \<and> item_identifier (model_dict request_only_code) ''unknown'' = ''None''
   \<and> add_quotation_item recording_service (model_dict request_only_code) []
       = Inr [(''None'', ''Quotation Code: Q1'')]"
proof -
  have r: "id_field request_only_code = None" by (simp add: request_only_code_def)
  note d = request_only_code_document
  note t = id_none_identifier [of "model_dict request_only_code" "''Quotation Code: Q1''" "''unknown''"
        recording_service "[]" request_only_code]
  from t r have i: "model_dict request_only_code ''id'' = Some PyNone" by blast
  from t i d r show ?thesis
    by (simp add: recording_service_def exc_bind_Inr)
qed

lemma request_blank_document:
  "create_document_text (model_dict request_blank) = Inr []"
  by (simp add: create_document_text_parts spec_field_order_def model_dict_def request_blank_def
      request_only_code_def dict_get_def opt_int_def opt_str_def opt_float_def)

lemma request_dict_lookups:
  "dict_get (model_dict request_only_code) ''id'' = PyNone"
  "dict_get (model_dict request_only_code) ''quotationcode'' = PyStr ''Q1''"
  "item_identifier (model_dict request_only_code) fallback = ''None''"
  "item_identifier (model_dict request_blank) fallback = ''None''"
  by (simp_all add: dict_get_def item_identifier_def dict_get_default_def model_dict_def
      request_blank_def request_only_code_def opt_int_def opt_str_def)

text \<open>
  C3: the identifier of a record is its id when present, else its quotationcode when
  present, else (in a batch) item_<position>. The code at the records the facade builds
  from requests without id, where 'id' is a key mapped to None: the record with only
  quotationcode "Q1" is stored under "None" while the facade answers with item_id "Q1",
  and in a batch the records without id all get "None", the one with neither id nor
  quotationcode included, instead of "Q1" and "item_1".
\<close>

theorem id_none_shadows_quotationcode:
  "item_identifier [''id'' \<mapsto> PyNone, ''quotationcode'' \<mapsto> PyStr ''Q1''] ''unknown'' = ''None''
   \<and> add_quotation recording_service request_only_code [] =
       Inr (\<lparr>resp_status = ''success'', resp_message = ''Quotation item added successfully'',
             resp_item_id = PyStr ''Q1''\<rparr>,
            [(''None'', ''Quotation Code: Q1'')])
   \<and> bulk_add_quotation_items recording_service [model_dict request_only_code, model_dict request_blank] []
       = Inr [(''None'', ''Quotation Code: Q1''), (''None'', [])]"
proof (intro conjI)
  show "item_identifier [''id'' \<mapsto> PyNone, ''quotationcode'' \<mapsto> PyStr ''Q1''] ''unknown'' = ''None''"
    by (simp add: item_identifier_def dict_get_default_def)
next
  have a: "add_quotation_item recording_service (model_dict request_only_code) [] =
             Inr [(''None'', ''Quotation Code: Q1'')]"
    by (simp add: add_quotation_item_unfold [OF request_only_code_document] request_dict_lookups
        recording_service_def exc_bind_Inr)
  show "add_quotation recording_service request_only_code [] =
       Inr (\<lparr>resp_status = ''success'', resp_message = ''Quotation item added successfully'',
             resp_item_id = PyStr ''Q1''\<rparr>,
            [(''None'', ''Quotation Code: Q1'')])"
    by (simp add: add_quotation_def Let_def a request_dict_lookups py_or_def)
next
  have e: "\<And>text. model_encode recording_service text = Inr text"
    by (simp add: recording_service_def)
  have c: "bulk_collect recording_service [model_dict request_only_code, model_dict request_blank]
             ([], [], [], [])
           = Inr ([''Quotation Code: Q1'', []], [''Quotation Code: Q1'', []],
                  [model_dict request_only_code, model_dict request_blank], [''None'', ''None''])"
    by (simp add: request_only_code_document request_blank_document request_dict_lookups e exc_bind_Inr)
  show "bulk_add_quotation_items recording_service [model_dict request_only_code, model_dict request_blank] []
       = Inr [(''None'', ''Quotation Code: Q1''), (''None'', [])]"
    unfolding bulk_add_quotation_items_def c
    by (simp add: exc_bind_Inr recording_service_def)
qed

text \<open>
  What the identifier expression does by the keys of the dictionary: a key 'id' wins,
  then a key 'quotationcode', and a record with neither key gets the fallback.
\<close>

lemma item_identifier_id: "item ''id'' = Some v \<Longrightarrow> item_identifier item fallback = py_str v"
  by (simp add: item_identifier_def dict_get_default_def)

lemma item_identifier_quotationcode:
  "item ''id'' = None \<Longrightarrow> item ''quotationcode'' = Some v \<Longrightarrow> item_identifier item fallback = py_str v"
  by (simp add: item_identifier_def dict_get_default_def)

lemma item_identifier_fallback:
  "item ''id'' = None \<Longrightarrow> item ''quotationcode'' = None \<Longrightarrow> item_identifier item fallback = fallback"
  by (simp add: item_identifier_def dict_get_default_def)

text \<open>The decimal text of a number determines the number.\<close>

lemma digit_char_inj: "a < 10 \<Longrightarrow> b < 10 \<Longrightarrow> digit_char a = digit_char b \<Longrightarrow> a = b"
proof -
  assume "a < 10" "b < 10" "digit_char a = digit_char b"
  moreover have "distinct ''0123456789''" by simp
  ultimately show "a = b"
    by (simp add: digit_char_def nth_eq_iff_index_eq)
qed

lemma str_nat_small: "n < 10 \<Longrightarrow> str_nat n = [digit_char n]"
  by simp

lemma str_nat_large: "\<not> n < 10 \<Longrightarrow> str_nat n = str_nat (n div 10) @ [digit_char (n mod 10)]"
  by (subst str_nat.simps) simp

lemma str_nat_nonempty: "str_nat n \<noteq> []"
  by (cases "n < 10") (simp_all only: str_nat_small str_nat_large, simp_all)

lemma str_nat_inj: "str_nat a = str_nat b \<Longrightarrow> a = b"
proof (induction a arbitrary: b rule: str_nat.induct)
  case (1 n)
  show ?case
  proof (cases "n < 10")
    case n: True
    then have sn: "str_nat n = [digit_char n]" by (rule str_nat_small)
    show ?thesis
    proof (cases "b < 10")
      case True
      then have "str_nat b = [digit_char b]" by (rule str_nat_small)
      with sn "1.prems" have "digit_char n = digit_char b" by simp
      with n True show ?thesis by (rule digit_char_inj)
    next
      case False
      then have "str_nat b = str_nat (b div 10) @ [digit_char (b mod 10)]" by (rule str_nat_large)
      with sn "1.prems" have "[digit_char n] = str_nat (b div 10) @ [digit_char (b mod 10)]" by simp
      then show ?thesis using str_nat_nonempty [of "b div 10"] by simp
    qed
  next
    case n: False
    then have sn: "str_nat n = str_nat (n div 10) @ [digit_char (n mod 10)]" by (rule str_nat_large)
    show ?thesis
    proof (cases "b < 10")
      case True
      then have "str_nat b = [digit_char b]" by (rule str_nat_small)
      with sn "1.prems" have "str_nat (n div 10) @ [digit_char (n mod 10)] = [digit_char b]" by simp
      then show ?thesis using str_nat_nonempty [of "n div 10"] by simp
    next
      case False
      then have "str_nat b = str_nat (b div 10) @ [digit_char (b mod 10)]" by (rule str_nat_large)
      with sn "1.prems" have "str_nat (n div 10) @ [digit_char (n mod 10)]
            = str_nat (b div 10) @ [digit_char (b mod 10)]" by simp
      then have e: "str_nat (n div 10) = str_nat (b div 10)"
        and d: "digit_char (n mod 10) = digit_char (b mod 10)"
        by simp_all
      from "1.IH" [OF n e] have "n div 10 = b div 10" .
      moreover from d have "n mod 10 = b mod 10" by (simp add: digit_char_inj)
      ultimately show ?thesis by (metis div_mult_mod_eq)
    qed
  qed
qed

text \<open>
  The identifiers collected by the loop of bulk_add_quotation_items: one per record, in
  the order of the batch, the fallback of record \<open>i\<close> being item_<i>.
\<close>

lemma bulk_collect_ids:
  "bulk_collect self items (documents, embeddings, metadatas, ids)
     = Inr (documents', embeddings', metadatas', ids')
   \<Longrightarrow> ids' = ids @ map (\<lambda>i. item_identifier (items ! i) (''item_'' @ str_nat (length ids + i)))
                       [0..<length items]"
proof (induction items arbitrary: documents embeddings metadatas ids)
  case Nil
  then show ?case by simp
next
  case (Cons item rest)
  obtain doc_text where d: "create_document_text item = Inr doc_text"
    using create_document_text_total by blast
  show ?case
  proof (cases "model_encode self doc_text")
    case (Inl e)
    with Cons.prems d show ?thesis by (simp add: exc_bind_Inr exc_bind_Inl)
  next
    case (Inr embedding)
    with Cons.prems d have "bulk_collect self rest
       (documents @ [doc_text], embeddings @ [embedding], metadatas @ [item],
        ids @ [item_identifier item (''item_'' @ str_nat (length ids))])
       = Inr (documents', embeddings', metadatas', ids')"
      by (simp add: exc_bind_Inr)
    from Cons.IH [OF this] have "ids' = (ids @ [item_identifier item (''item_'' @ str_nat (length ids))])
        @ map (\<lambda>i. item_identifier (rest ! i) (''item_'' @ str_nat (Suc (length ids) + i))) [0..<length rest]"
      by simp
    moreover have "map (\<lambda>i. item_identifier ((item # rest) ! i) (''item_'' @ str_nat (length ids + i)))
                       [0..<length (item # rest)]
       = item_identifier item (''item_'' @ str_nat (length ids))
         # map (\<lambda>i. item_identifier (rest ! i) (''item_'' @ str_nat (Suc (length ids) + i))) [0..<length rest]"
      by (simp add: upt_conv_Cons map_Suc_upt [symmetric] del: upt_Suc)
    ultimately show ?thesis by simp
  qed
qed

lemma bulk_fallback_identifier:
  assumes "bulk_collect self items ([], [], [], []) = Inr (documents, embeddings, metadatas, ids)"
    and "i < length items" and "(items ! i) ''id'' = None" and "(items ! i) ''quotationcode'' = None"
  shows "ids ! i = ''item_'' @ str_nat i"
  using assms(2-4) by (simp add: bulk_collect_ids [OF assms(1)] item_identifier_fallback)

lemma bulk_fallback_distinct:
  assumes "bulk_collect self items ([], [], [], []) = Inr (documents, embeddings, metadatas, ids)"
    and "i < length items" and "(items ! i) ''id'' = None" and "(items ! i) ''quotationcode'' = None"
    and "j < length items" and "(items ! j) ''id'' = None" and "(items ! j) ''quotationcode'' = None"
    and "i \<noteq> j"
  shows "ids ! i \<noteq> ids ! j"
proof
  assume "ids ! i = ids ! j"
  then have "''item_'' @ str_nat i = ''item_'' @ str_nat j"
    by (simp only: bulk_fallback_identifier [OF assms(1-4)] bulk_fallback_identifier [OF assms(1) assms(5-7)])
  then have "str_nat i = str_nat j"
    by (simp only: same_append_eq)
  then have "i = j" by (rule str_nat_inj)
  with assms(8) show False by simp
qed

section \<open>Properties of the answer synthesizer\<close>

lemma query_count:
  "query self question n_results coll = Inr results \<Longrightarrow> q_count results = length (q_documents results)"
  by (auto simp: query_def try_reraise_id exc_bind_def split: sum.splits)

text \<open>
  C4: for every question, when the retrieval step returns no result, generate_answer
  returns the fixed sentence "I couldn't find any relevant information for your
  question.", whatever the question, and raises nothing.
\<close>

theorem generate_answer_empty:
  "query self question n_results coll = Inr results \<Longrightarrow> q_count results = 0 \<Longrightarrow>
   generate_answer self question n_results coll = Inr no_answer"
  by (simp add: generate_answer_def exc_bind_Inr)

text \<open>C4 at an index whose search returns an empty list of documents.\<close>

theorem generate_answer_empty_witness:
  "query empty_index_service ''Which quotations are pending?'' 5 []
     = Inr \<lparr>q_question = ''Which quotations are pending?'', q_documents = [], q_metadatas = [],
            q_distances = [], q_count = 0\<rparr>
   \<and> generate_answer empty_index_service ''Which quotations are pending?'' 5 [] = Inr no_answer"
proof -
  have q: "query empty_index_service ''Which quotations are pending?'' 5 []
     = Inr \<lparr>q_question = ''Which quotations are pending?'', q_documents = [], q_metadatas = [],
            q_distances = [], q_count = 0\<rparr>"
    by (simp add: query_def empty_index_service_def recording_service_def try_reraise_id exc_bind_Inr
        first_or_empty_def)
  from generate_answer_empty [OF q] q show ?thesis by simp
qed

subsection \<open>The loop over the ranked results\<close>

lemma answer_body_line:
  "\<exists>new. answer_body idx metadata answer_parts = Inr (answer_parts @ new)
         \<and> concat new = CHR 0x0A # included_result_line idx metadata"
  by (simp add: answer_body_def append_if_set_eq exc_bind_Inr included_result_line_def
      included_phrase_def spec_included_truthy rupee_def)

lemma answer_loop_lines:
  "\<exists>new. answer_loop idx results answer_parts = Inr (answer_parts @ new)
         \<and> concat new =
             concat (map (\<lambda>(n, metadata). CHR 0x0A # included_result_line n metadata)
                       (zip [idx..<idx + length results]
                            (map (\<lambda>(doc, metadata, distance). metadata) results)))"
proof (induction results arbitrary: idx answer_parts)
  case Nil
  then show ?case by simp
next
  case (Cons r results)
  obtain doc metadata distance where r: "r = (doc, metadata, distance)"
    by (cases r) auto
  obtain new1 where b: "answer_body idx metadata answer_parts = Inr (answer_parts @ new1)"
    and c1: "concat new1 = CHR 0x0A # included_result_line idx metadata"
    using answer_body_line by blast
  obtain new2 where
    l: "answer_loop (Suc idx) results (answer_parts @ new1) = Inr ((answer_parts @ new1) @ new2)"
    and c2: "concat new2 =
             concat (map (\<lambda>(n, metadata). CHR 0x0A # included_result_line n metadata)
                       (zip [Suc idx..<Suc idx + length results]
                            (map (\<lambda>(doc, metadata, distance). metadata) results)))"
    using Cons.IH by blast
  have "idx < idx + length (r # results)" by simp
  then have u: "[idx..<idx + length (r # results)] = idx # [Suc idx..<Suc idx + length results]"
    by (subst upt_conv_Cons) simp_all
  have "answer_loop idx (r # results) answer_parts = Inr (answer_parts @ (new1 @ new2))"
    by (simp add: r b l exc_bind_Inr)
  moreover have "concat (new1 @ new2) =
      concat (map (\<lambda>(n, metadata). CHR 0x0A # included_result_line n metadata)
                (zip [idx..<idx + length (r # results)]
                     (map (\<lambda>(doc, metadata, distance). metadata) (r # results))))"
    by (simp only: u) (simp add: r c1 c2)
  ultimately show ?case by blast
qed

lemma zip_upt_map:
  "map (\<lambda>(n, x). f n x) (zip [k..<k + length xs] xs) = map (\<lambda>i. f (k + i) (xs ! i)) [0..<length xs]"
  by (rule nth_equalityI) simp_all

lemma metadata_of_zip:
  "length metadatas = length documents \<Longrightarrow> length distances = length documents \<Longrightarrow>
   map (\<lambda>(doc, metadata, distance). metadata) (zip documents (zip metadatas distances)) = metadatas"
  by (rule nth_equalityI) simp_all

lemma metadata_of_zip_distances:
  "length distances1 = length distances2 \<Longrightarrow>
   map (\<lambda>(doc, metadata, distance). metadata) (zip documents (zip metadatas distances1))
   = map (\<lambda>(doc, metadata, distance). metadata) (zip documents (zip metadatas distances2))"
  by (rule nth_equalityI) simp_all

lemma generate_answer_lines:
  assumes "query self question n_results coll = Inr results" and "q_count results \<noteq> 0"
    and "zs = zip (q_documents results) (zip (q_metadatas results) (q_distances results))"
  shows "generate_answer self question n_results coll =
     Inr (answer_header @
          concat (map (\<lambda>(n, metadata). CHR 0x0A # included_result_line n metadata)
             (zip [1..<1 + length zs] (map (\<lambda>(doc, metadata, distance). metadata) zs))))"
proof -
  obtain new where l: "answer_loop 1 zs [answer_header] = Inr ([answer_header] @ new)"
    and c: "concat new = concat (map (\<lambda>(n, metadata). CHR 0x0A # included_result_line n metadata)
             (zip [1..<1 + length zs] (map (\<lambda>(doc, metadata, distance). metadata) zs)))"
    using answer_loop_lines by blast
  from assms(2) have nz: "(q_count results = 0) = False" by simp
  have "generate_answer self question n_results coll =
          exc_bind (answer_loop 1 zs [answer_header]) (\<lambda>answer_parts. Inr (concat answer_parts))"
    by (simp only: generate_answer_def assms(1) assms(3) exc_bind_Inr nz if_False)
  also have "\<dots> = Inr (concat ([answer_header] @ new))"
    by (simp only: l exc_bind_Inr)
  also have "\<dots> = Inr (answer_header @ concat new)"
    by simp
  finally show ?thesis
    by (simp only: c)
qed

lemma query_three_result_service:
  "query three_result_service ''What did we quote?'' 5 [] = Inr three_results"
  by (simp add: query_def three_result_service_def recording_service_def try_reraise_id exc_bind_Inr
      first_or_empty_def three_results_def)

lemma query_other_distances_service:
  "query other_distances_service ''What did we quote?'' 5 [] =
     Inr \<lparr>q_question = ''What did we quote?'',
      q_documents = [''Item: A'', ''Item: B'', ''Item: C''],
      q_metadatas = [[''itemname'' \<mapsto> PyStr ''A''], [''itemname'' \<mapsto> PyStr ''B''],
                     [''itemname'' \<mapsto> PyStr ''C'']],
      q_distances = [True, False, True],
      q_count = 3\<rparr>"
  by (simp add: query_def other_distances_service_def try_reraise_id exc_bind_Inr first_or_empty_def)

text \<open>
  C5: ranking preservation. For every non-empty ranked result sequence (documents,
  metadatas and distances of one length), generate_answer returns the header followed by
  one numbered entry per result, in the order of the input: entry \<open>i + 1\<close> is the line of
  result \<open>i\<close>. Nothing is reordered, dropped or repeated.
\<close>

theorem generate_answer_ranking:
  assumes "query self question n_results coll = Inr results"
    and "q_count results \<noteq> 0"
    and "length (q_metadatas results) = length (q_documents results)"
    and "length (q_distances results) = length (q_documents results)"
  shows "generate_answer self question n_results coll =
           Inr (answer_header @ spec_numbered_entries (q_metadatas results))"
proof -
  define zs where "zs = zip (q_documents results) (zip (q_metadatas results) (q_distances results))"
  have m: "map (\<lambda>(doc, metadata, distance). metadata) zs = q_metadatas results"
    unfolding zs_def using assms(3,4) by (rule metadata_of_zip)
  have n: "length zs = length (q_metadatas results)"
    unfolding zs_def using assms(3,4) by simp
  have "generate_answer self question n_results coll =
     Inr (answer_header @
          concat (map (\<lambda>(n, metadata). CHR 0x0A # included_result_line n metadata)
             (zip [1..<1 + length (q_metadatas results)] (q_metadatas results))))"
    using generate_answer_lines [OF assms(1,2) zs_def] by (simp only: m n)
  also have "\<dots> = Inr (answer_header @
          concat (map (\<lambda>i. CHR 0x0A # included_result_line (1 + i) (q_metadatas results ! i))
                    [0..<length (q_metadatas results)]))"
    by (simp only: zip_upt_map)
  finally show ?thesis
    by (simp add: spec_numbered_entries_def)
qed

text \<open>
  C5 at an index that returns the results A, B, C in this order: the answer lists
  1. A, 2. B, 3. C.
\<close>

theorem generate_answer_ranking_witness:
  "query three_result_service ''What did we quote?'' 5 [] = Inr three_results
   \<and> q_count three_results \<noteq> 0
   \<and> length (q_metadatas three_results) = length (q_documents three_results)
   \<and> length (q_distances three_results) = length (q_documents three_results)
   \<and> generate_answer three_result_service ''What did we quote?'' 5 [] =
       Inr (answer_header @ [CHR 0x0A] @ ''1. A '' @ [CHR 0x0A] @ ''2. B '' @ [CHR 0x0A] @ ''3. C '')"
proof -
  have c: "q_count three_results \<noteq> 0" by (simp add: three_results_def)
  have m: "length (q_metadatas three_results) = length (q_documents three_results)"
    by (simp add: three_results_def)
  have d: "length (q_distances three_results) = length (q_documents three_results)"
    by (simp add: three_results_def)
  have e: "spec_numbered_entries (q_metadatas three_results) =
             [CHR 0x0A] @ ''1. A '' @ [CHR 0x0A] @ ''2. B '' @ [CHR 0x0A] @ ''3. C ''"
    by (simp add: spec_numbered_entries_def three_results_def included_result_line_def included_phrase_def
        spec_included_truthy dict_get_def digit_char_def upt_rec)
  from generate_answer_ranking [OF query_three_result_service c m d] query_three_result_service c m d e
  show ?thesis by simp
qed

text \<open>
  C6, as the code has it: for every ranked result with metadata, the loop of
  generate_answer appends, after a line break, exactly the line of the result: its
  number, then the phrases "Quotation <code>: ", "<itemname> ", "for <customername> ",
  "at <rupee sign><price> " and "(Status: <status>)" of the fields that are present and
  not empty (not None, a non-empty string, a non-zero number), in this order; a field
  that is absent, empty or zero adds nothing, and nothing else is inserted. For a
  result with all five fields the line is
  "1. Quotation Q1: Bearing for Acme at <rupee sign>500 (Status: open)".
\<close>

theorem answer_body_spec:
  "(\<exists>new. answer_body n metadata answer_parts = Inr (answer_parts @ new)
          \<and> concat new = CHR 0x0A # included_result_line n metadata)
   \<and> answer_body 1 full_metadata [] =
       Inr [[CHR 0x0A] @ ''1. '', ''Quotation Q1: '', ''Bearing '', ''for Acme '',
            ''at '' @ [CHR 0xE2, CHR 0x82, CHR 0xB9] @ ''500 '', ''(Status: open)'']"
proof
  show "\<exists>new. answer_body n metadata answer_parts = Inr (answer_parts @ new)
          \<and> concat new = CHR 0x0A # included_result_line n metadata"
    by (rule answer_body_line)
next
  show "answer_body 1 full_metadata [] =
       Inr [[CHR 0x0A] @ ''1. '', ''Quotation Q1: '', ''Bearing '', ''for Acme '',
            ''at '' @ [CHR 0xE2, CHR 0x82, CHR 0xB9] @ ''500 '', ''(Status: open)'']"
    by (simp add: answer_body_def append_if_set_eq exc_bind_Inr full_metadata_def dict_get_def
        str_int_def digit_char_def rupee_def)
qed

text \<open>
  C6 as stated fails: in the metadata {itemname: "Bearing", itemsellingprice: 0.0,
  quptationstatus: ""} the price and the status are present, and the line built from
  the present fields is "1. Bearing at <rupee sign>0.0 (Status: )"; the code builds
  "1. Bearing ", with no phrase for the price or the status.
\<close>

theorem answer_body_drops_zero_price:
  "answer_body 1 zero_price_metadata [] = Inr [[CHR 0x0A] @ ''1. '', ''Bearing '']
   \<and> spec_present zero_price_metadata ''itemsellingprice''
   \<and> spec_present zero_price_metadata ''quptationstatus''
   \<and> spec_result_line 1 zero_price_metadata
       = ''1. Bearing at '' @ [CHR 0xE2, CHR 0x82, CHR 0xB9] @ ''0.0 (Status: )''
   \<and> concat [[CHR 0x0A] @ ''1. '', ''Bearing ''] \<noteq> CHR 0x0A # spec_result_line 1 zero_price_metadata"
proof -
  have a: "answer_body 1 zero_price_metadata [] = Inr [[CHR 0x0A] @ ''1. '', ''Bearing '']"
    by (simp add: answer_body_def append_if_set_eq exc_bind_Inr zero_price_metadata_def dict_get_def
        digit_char_def)
  have p: "spec_present zero_price_metadata ''itemsellingprice''"
    "spec_present zero_price_metadata ''quptationstatus''"
    by (simp_all add: spec_present_def zero_price_metadata_def)
  have l: "spec_result_line 1 zero_price_metadata
       = ''1. Bearing at '' @ [CHR 0xE2, CHR 0x82, CHR 0xB9] @ ''0.0 (Status: )''"
    by (simp add: spec_result_line_def spec_phrase_def spec_present_def zero_price_metadata_def
        dict_get_def digit_char_def)
  have n: "concat [[CHR 0x0A] @ ''1. '', ''Bearing ''] \<noteq> CHR 0x0A # spec_result_line 1 zero_price_metadata"
    unfolding l by simp
  from a p l n show ?thesis by simp
qed

text \<open>
  C8: noninterference in distances. Two retrievals that agree on documents and
  metadatas and on the number of distances, the distances themselves being arbitrary
  (even of different types), give the same answer: generate_answer neither inspects nor
  renders a distance.
\<close>

theorem generate_answer_ignores_distances:
  assumes "query self1 question1 n1 coll1 = Inr results1"
    and "query self2 question2 n2 coll2 = Inr results2"
    and "q_documents results1 = q_documents results2"
    and "q_metadatas results1 = q_metadatas results2"
    and "length (q_distances results1) = length (q_distances results2)"
  shows "generate_answer self1 question1 n1 coll1 = generate_answer self2 question2 n2 coll2"
proof (cases "q_count results1 = 0")
  case True
  moreover from assms(1-3) have "q_count results2 = q_count results1"
    by (simp add: query_count)
  ultimately show ?thesis
    using assms(1,2) by (simp add: generate_answer_def exc_bind_Inr)
next
  case False
  moreover from assms(1-3) have "q_count results2 = q_count results1"
    by (simp add: query_count)
  ultimately have nz: "q_count results1 \<noteq> 0" "q_count results2 \<noteq> 0" by simp_all
  define zs1 where "zs1 = zip (q_documents results1) (zip (q_metadatas results1) (q_distances results1))"
  define zs2 where "zs2 = zip (q_documents results2) (zip (q_metadatas results2) (q_distances results2))"
  have l: "length zs1 = length zs2"
    unfolding zs1_def zs2_def using assms(3-5) by simp
  have m: "map (\<lambda>(doc, metadata, distance). metadata) zs1
         = map (\<lambda>(doc, metadata, distance). metadata) zs2"
    unfolding zs1_def zs2_def assms(3,4) using assms(5) by (rule metadata_of_zip_distances)
  show ?thesis
    by (simp only: generate_answer_lines [OF assms(1) nz(1) zs1_def]
        generate_answer_lines [OF assms(2) nz(2) zs2_def] l m)
qed

text \<open>
  C8 at two indexes returning the same three results, one with the distances 1, 2, 3
  and one with truth values in their place.
\<close>

theorem generate_answer_ignores_distances_witness:
  "generate_answer three_result_service ''What did we quote?'' 5 []
     = generate_answer other_distances_service ''What did we quote?'' 5 []"
  by (rule generate_answer_ignores_distances [OF query_three_result_service query_other_distances_service])
     (simp_all add: three_results_def)

end
